theory Spec2Isabelle
  imports Main
begin

section \<open>Python strings\<close>

text \<open>
  A Python \<^verbatim>\<open>str\<close> is a sequence of Unicode code points; it is modelled as a list of
  natural numbers, one per code point. \<open>ascii\<close> turns an ASCII literal into such a list.
\<close>

type_synonym pystr = "nat list"

definition ascii :: "string \<Rightarrow> pystr" where
  "ascii s = map of_char s"

text \<open>
  The characters that \<^verbatim>\<open>str.strip()\<close> removes when called without an argument: the
  code points Python classifies as whitespace.
\<close>

definition isspace :: "nat \<Rightarrow> bool" where
  "isspace c = ((9 \<le> c \<and> c \<le> 13) \<or> (28 \<le> c \<and> c \<le> 32) \<or> c = 133 \<or> c = 160
     \<or> c = 5760 \<or> (8192 \<le> c \<and> c \<le> 8202) \<or> c = 8232 \<or> c = 8233 \<or> c = 8239
     \<or> c = 8287 \<or> c = 12288)"

definition lstrip :: "pystr \<Rightarrow> pystr" where
  "lstrip s = dropWhile isspace s"

definition rstrip :: "pystr \<Rightarrow> pystr" where
  "rstrip s = rev (dropWhile isspace (rev s))"

definition strip :: "pystr \<Rightarrow> pystr" where
  "strip s = rstrip (lstrip s)"

text \<open>\<^verbatim>\<open>s.startswith(p)\<close> and \<^verbatim>\<open>s.endswith(p)\<close>.\<close>

definition startswith :: "pystr \<Rightarrow> pystr \<Rightarrow> bool" where
  "startswith s p = (take (length p) s = p)"

definition endswith :: "pystr \<Rightarrow> pystr \<Rightarrow> bool" where
  "endswith s p = startswith (rev s) (rev p)"

section \<open>Exceptions\<close>

text \<open>
  An exception object carries its class, the text of its \<^verbatim>\<open>message\<close> attribute when it
  has one (what \<^verbatim>\<open>hasattr(e, "message")\<close> tests), and the text \<^verbatim>\<open>str(e)\<close>.
  \<open>NonException\<close> stands for the classes that derive from \<^verbatim>\<open>BaseException\<close> but not
  from \<^verbatim>\<open>Exception\<close> (such as \<^verbatim>\<open>KeyboardInterrupt\<close>): an
  \<^verbatim>\<open>except Exception\<close> clause lets them pass.
\<close>

datatype exn_class =
    UnicodeDecodeError
  | BlockedPromptException
  | AttributeError
  | IndexError
  | ValueError
  | OtherException
  | NonException

record exn =
  exn_class :: exn_class
  message :: "pystr option"
  exn_str :: pystr

definition is_Exception :: "exn \<Rightarrow> bool" where
  "is_Exception e = (exn_class e \<noteq> NonException)"

definition mk_exn :: "exn_class \<Rightarrow> pystr \<Rightarrow> exn" where
  "mk_exn c txt = \<lparr>exn_class = c, message = None, exn_str = txt\<rparr>"

definition ebind :: "exn + 'a \<Rightarrow> ('a \<Rightarrow> exn + 'b) \<Rightarrow> exn + 'b" where
  "ebind r f = (case r of Inl e \<Rightarrow> Inl e | Inr x \<Rightarrow> f x)"

section \<open>Splitting once\<close>

text \<open>
  \<open>partition_sep s sep\<close> looks for the leftmost occurrence of \<open>sep\<close> in \<open>s\<close> and returns
  the text before it and the text after it.
\<close>

fun partition_sep :: "pystr \<Rightarrow> pystr \<Rightarrow> (pystr \<times> pystr) option" where
  "partition_sep [] sep = (if sep = [] then Some ([], []) else None)"
| "partition_sep (c # cs) sep =
     (if startswith (c # cs) sep then Some ([], drop (length sep) (c # cs))
      else (case partition_sep cs sep of
              None \<Rightarrow> None
            | Some (a, b) \<Rightarrow> Some (c # a, b)))"

text \<open>
  \<^verbatim>\<open>s.split(sep, 1)\<close>: at most one split, at the leftmost occurrence of \<open>sep\<close>;
  \<^verbatim>\<open>s.rsplit(sep, 1)\<close>: at most one split, at the rightmost occurrence, which is the
  leftmost occurrence of the reversed separator in the reversed text. Both raise
  \<^verbatim>\<open>ValueError\<close> on an empty separator.
\<close>

definition split1 :: "pystr \<Rightarrow> pystr \<Rightarrow> exn + pystr list" where
  "split1 s sep =
     (if sep = [] then Inl (mk_exn ValueError (ascii ''empty separator''))
      else (case partition_sep s sep of
              None \<Rightarrow> Inr [s]
            | Some (a, b) \<Rightarrow> Inr [a, b]))"

definition rsplit1 :: "pystr \<Rightarrow> pystr \<Rightarrow> exn + pystr list" where
  "rsplit1 s sep =
     (if sep = [] then Inl (mk_exn ValueError (ascii ''empty separator''))
      else (case partition_sep (rev s) (rev sep) of
              None \<Rightarrow> Inr [s]
            | Some (a, b) \<Rightarrow> Inr [rev b, rev a]))"

text \<open>List indexing \<^verbatim>\<open>xs[i]\<close> with a non-negative index.\<close>

definition item :: "'a list \<Rightarrow> nat \<Rightarrow> exn + 'a" where
  "item xs i = (if i < length xs then Inr (xs ! i)
                else Inl (mk_exn IndexError (ascii ''list index out of range'')))"

section \<open>Cleaning the generated text (app.py, lines 123 to 131)\<close>

definition FENCE_MERMAID :: pystr where
  "FENCE_MERMAID = ascii ''```mermaid''"

definition FENCE :: pystr where
  "FENCE = ascii ''```''"

text \<open>
  One guarded removal at the front:
  \<^verbatim>\<open>if g.strip().startswith(sep): g = g.split(sep, 1)[1]\<close>,
  and one at the back:
  \<^verbatim>\<open>if g.strip().endswith(sep): g = g.rsplit(sep, 1)[0]\<close>.
\<close>

definition drop_leading :: "pystr \<Rightarrow> pystr \<Rightarrow> exn + pystr" where
  "drop_leading sep g =
     (if startswith (strip g) sep then ebind (split1 g sep) (\<lambda>parts. item parts 1)
      else Inr g)"

definition drop_trailing :: "pystr \<Rightarrow> pystr \<Rightarrow> exn + pystr" where
  "drop_trailing sep g =
     (if endswith (strip g) sep then ebind (rsplit1 g sep) (\<lambda>parts. item parts 0)
      else Inr g)"

text \<open>
  The three tests in the order of the source, followed by the final
  \<^verbatim>\<open>generated_text.strip()\<close> whose value is stored as the session result.
\<close>

definition clean_generated_text :: "pystr \<Rightarrow> exn + pystr" where
  "clean_generated_text generated_text =
     ebind (drop_leading FENCE_MERMAID generated_text) (\<lambda>g1.
     ebind (drop_leading FENCE g1) (\<lambda>g2.
     ebind (drop_trailing FENCE g2) (\<lambda>g3.
     Inr (strip g3))))"

section \<open>Session state, inputs and collaborators\<close>

text \<open>
  \<^verbatim>\<open>st.session_state\<close> keeps two entries across the runs of the script. An entry
  may be missing before the first run (outer \<open>None\<close>); once present it holds a string or
  Python's \<^verbatim>\<open>None\<close> (inner \<open>None\<close>). Lines 55 to 58 create the missing entries, so
  the rest of the script works on a state that has both.
\<close>

record stored_state =
  stored_mermaid_code :: "pystr option option"
  stored_error_message :: "pystr option option"

record session_state =
  mermaid_code :: "pystr option"
  error_message :: "pystr option"

definition init_session_state :: "stored_state \<Rightarrow> session_state" where
  "init_session_state st =
     \<lparr>mermaid_code = (case stored_mermaid_code st of None \<Rightarrow> None | Some v \<Rightarrow> v),
      error_message = (case stored_error_message st of None \<Rightarrow> None | Some v \<Rightarrow> v)\<rparr>"

text \<open>Truth value of an optional string in a Python condition.\<close>

definition truthy :: "pystr option \<Rightarrow> bool" where
  "truthy v = (case v of None \<Rightarrow> False | Some s \<Rightarrow> s \<noteq> [])"

text \<open>
  The values the widgets return in one run. \<open>uploaded_file\<close> is \<open>None\<close> when nothing is
  uploaded; otherwise it holds what \<^verbatim>\<open>uploaded_file.getvalue().decode("utf-8")\<close>
  does: raise, or return the document text. \<open>button\<close> is the value returned by the
  "Generate Flowchart" button.
\<close>

record inputs =
  api_key :: pystr
  model_name :: pystr
  uploaded_file :: "(exn + pystr) option"
  button :: bool

text \<open>
  The collaborators outside the script: the client constructor
  \<^verbatim>\<open>genai.Client(api_key=...)\<close>, the call
  \<^verbatim>\<open>client.models.generate_content(model=..., contents=[prompt])\<close> together with
  the read of \<^verbatim>\<open>response.text\<close> (either of the two raises, or the text is a string
  or \<^verbatim>\<open>None\<close>), the renderer
  \<^verbatim>\<open>st_mermaid\<close>, and \<^verbatim>\<open>traceback.format_exc()\<close> for the exception being
  handled. A constructor or renderer returns \<open>None\<close> when it succeeds and \<open>Some e\<close> when
  it raises \<open>e\<close>.

  \<open>generation_types\<close> tells whether the installed package has the attribute
  \<^verbatim>\<open>genai.types.generation_types\<close>, which the second \<^verbatim>\<open>except\<close> clause of
  the outer \<^verbatim>\<open>try\<close> (line 144) looks up when it is tried. The package that line 3
  imports (\<^verbatim>\<open>from google import genai\<close>) has no such attribute, so there the value is
  \<open>False\<close> and the lookup raises \<^verbatim>\<open>AttributeError\<close>.
\<close>

record env =
  Client :: "pystr \<Rightarrow> exn option"
  generate_content :: "pystr \<Rightarrow> pystr \<Rightarrow> exn + pystr option"
  st_mermaid :: "pystr \<Rightarrow> exn option"
  format_exc :: "exn \<Rightarrow> pystr"
  generation_types :: bool

text \<open>What a run does that can be observed from outside, in order.\<close>

datatype event =
    ClientInit pystr
  | GenerateContent pystr pystr
  | StMermaid pystr
  | StError pystr
  | StWarning pystr
  | StInfo pystr
  | StSubheader pystr
  | StCode pystr
  | StCaption pystr
  | StStop

record world =
  session :: session_state
  trace :: "event list"

definition emit :: "event \<Rightarrow> world \<Rightarrow> world" where
  "emit ev w = w\<lparr>trace := trace w @ [ev]\<rparr>"

definition set_mermaid_code :: "pystr option \<Rightarrow> world \<Rightarrow> world" where
  "set_mermaid_code v w = w\<lparr>session := (session w)\<lparr>mermaid_code := v\<rparr>\<rparr>"

definition set_error_message :: "pystr option \<Rightarrow> world \<Rightarrow> world" where
  "set_error_message v w = w\<lparr>session := (session w)\<lparr>error_message := v\<rparr>\<rparr>"

text \<open>
  How a block of statements ends: normally, with an exception on its way out, or with the
  exception of \<^verbatim>\<open>st.stop()\<close> on its way out, which ends the run of the script
  without an error when it reaches the top and which \<^verbatim>\<open>except Exception\<close> does not
  catch.
\<close>

datatype completion = Normal | Raised exn | Stopped

section \<open>The prompt (app.py, lines 90 to 108)\<close>

definition PROMPT_HEAD :: pystr where
  "PROMPT_HEAD =
     [10] @ ascii ''                    Analyze the following LaTeX document'' @
     ascii '' content. Your goal is to generate a flowchart diagram using'' @
     ascii '' Mermaid JS syntax (specifically `graph TD;` for top-down).'' @ [10, 10] @
     ascii ''                    The flowchart should depict the dependency'' @
     ascii '' structure of defined results like lemmas, theorems,'' @
     ascii '' propositions, and corollaries within the paper.'' @ [10] @
     ascii ''                    Show how earlier results (e.g., Lemma 1,'' @
     ascii '' Proposition 2) are cited or used as direct inputs or'' @
     ascii '' prerequisites to prove subsequent results (e.g., Theorem 3,'' @
     ascii '' Lemma 4).'' @ [10, 10] @
     ascii ''                    Focus on explicit dependencies mentioned'' @
     ascii '' via commands like '' @ [92] @ ascii ''ref{...}, '' @ [92] @
     ascii ''cite{...} (if referencing prior internal results labelled'' @
     ascii '' similarly), or textual references (e.g., '' @ [34] @ ascii ''by Lemma 1'' @ [34] @
     ascii '', '' @ [34] @ ascii ''using Proposition 2'' @ [34] @ ascii '').'' @ [10] @
     ascii ''                    Represent each result (Lemma, Theorem,'' @
     ascii '' Proposition, Corollary) as a node. Use arrows (`-->`) to'' @
     ascii '' indicate dependency (e.g., `Lemma1 --> Theorem1`).'' @ [10] @
     ascii ''                    Use the labels found in the LaTeX code'' @
     ascii '' (e.g., `lem:flow`, `thm:main`) or the numbered identifiers'' @
     ascii '' (e.g., Lemma 2.1, Theorem 3) as node IDs/text where possible.'' @
     ascii '' If labels are complex, simplify them.'' @ [10, 10] @
     ascii ''                    Generate *only* the Mermaid JS code block,'' @
     ascii '' starting with `graph TD;` or `graph LR;`. Do not include any'' @
     ascii '' explanation before or after the code block.'' @ [10, 10] @
     ascii ''                    LaTeX Document Content:'' @ [10] @
     ascii ''                    ```latex'' @ [10] @ ascii ''                    ''"

definition PROMPT_TAIL :: pystr where
  "PROMPT_TAIL =
     [10] @ ascii ''                    ```'' @ [10, 10] @
     ascii ''                    Mermaid JS Flowchart:'' @ [10] @ ascii ''                    ''"

definition build_prompt :: "pystr \<Rightarrow> pystr" where
  "build_prompt tex_content = PROMPT_HEAD @ tex_content @ PROMPT_TAIL"

section \<open>The generation attempt (app.py, lines 61 to 155)\<close>

definition MSG_EMPTY :: pystr where
  "MSG_EMPTY =
     ascii ''Error: The uploaded .tex file appears to be empty.''"

definition MSG_CLIENT :: pystr where
  "MSG_CLIENT =
     ascii ''Failed to initialize Gemini Client. Check API Key? Error: ''"

definition MSG_DECODE :: pystr where
  "MSG_DECODE =
     ascii ''Error: Could not decode the .tex file. Please ensure it is'' @
     ascii '' UTF-8 encoded.''"

definition MSG_BLOCKED :: pystr where
  "MSG_BLOCKED =
     ascii ''Content generation blocked by API safety settings: ''"

definition MSG_UNEXPECTED :: pystr where
  "MSG_UNEXPECTED =
     ascii ''An unexpected error occurred: ''"

definition MSG_DETAILS :: pystr where
  "MSG_DETAILS =
     [10, 10] @ ascii ''Details:'' @ [10]"

definition MSG_NONE_ATTR :: pystr where
  "MSG_NONE_ATTR =
     [39] @ ascii ''NoneType'' @ [39] @ ascii '' object has no attribute '' @ [39]"

definition MSG_NO_KEY :: pystr where
  "MSG_NO_KEY =
     ascii ''Please enter your Gemini API key in the sidebar.''"

definition MSG_NO_FILE :: pystr where
  "MSG_NO_FILE =
     ascii ''Please upload a .tex file in the sidebar.''"

text \<open>
  The message of the handler for a failed call (line 139):
  \<^verbatim>\<open>f"Error calling Gemini API ({model_name}): {error_detail}\n\nDetails:\n{traceback.format_exc()}"\<close>.
\<close>

definition api_error_message :: "pystr \<Rightarrow> pystr \<Rightarrow> pystr \<Rightarrow> pystr" where
  "api_error_message model error_detail tb =
     ascii ''Error calling Gemini API ('' @ model @
     ascii ''): '' @ error_detail @ MSG_DETAILS @ tb"

text \<open>
  The body of the inner \<^verbatim>\<open>try\<close> (lines 116 to 131): the call, the read of
  \<^verbatim>\<open>response.text\<close>, the cleaning and the store of the result. When the text is
  \<^verbatim>\<open>None\<close> the first \<^verbatim>\<open>generated_text.strip()\<close> raises.
\<close>

definition call_gemini :: "inputs \<Rightarrow> env \<Rightarrow> pystr \<Rightarrow> world \<Rightarrow> completion \<times> world" where
  "call_gemini inp en prompt w =
     (let w1 = emit (GenerateContent (model_name inp) prompt) w in
      case generate_content en (model_name inp) prompt of
        Inl e \<Rightarrow> (Raised e, w1)
      | Inr None \<Rightarrow>
          (Raised (mk_exn AttributeError (MSG_NONE_ATTR @ ascii ''strip'' @ [39])), w1)
      | Inr (Some generated_text) \<Rightarrow>
          (case clean_generated_text generated_text of
             Inl e \<Rightarrow> (Raised e, w1)
           | Inr cleaned \<Rightarrow> (Normal, set_mermaid_code (Some cleaned) w1)))"

text \<open>The handler \<^verbatim>\<open>except Exception as api_error\<close> (lines 133 to 139).\<close>

definition api_error_handler :: "inputs \<Rightarrow> env \<Rightarrow> exn \<Rightarrow> world \<Rightarrow> world" where
  "api_error_handler inp en api_error w =
     (let error_detail = (case message api_error of
                            Some m \<Rightarrow> m
                          | None \<Rightarrow> exn_str api_error)
      in set_error_message
           (Some (api_error_message (model_name inp) error_detail (format_exc en api_error))) w)"

definition generate_block :: "inputs \<Rightarrow> env \<Rightarrow> pystr \<Rightarrow> world \<Rightarrow> completion \<times> world" where
  "generate_block inp en prompt w =
     (case call_gemini inp en prompt w of
        (Raised e, w1) \<Rightarrow>
          if is_Exception e then (Normal, api_error_handler inp en e w1)
          else (Raised e, w1)
      | r \<Rightarrow> r)"

text \<open>
  The construction of the client (lines 82 to 86): on an exception the message is stored
  and \<^verbatim>\<open>st.stop()\<close> is called, inside the outer \<^verbatim>\<open>try\<close>.
\<close>

definition client_block :: "inputs \<Rightarrow> env \<Rightarrow> world \<Rightarrow> completion \<times> world" where
  "client_block inp en w =
     (let w1 = emit (ClientInit (api_key inp)) w in
      case Client en (api_key inp) of
        None \<Rightarrow> (Normal, w1)
      | Some client_init_error \<Rightarrow>
          if is_Exception client_init_error
          then (Stopped,
                emit StStop
                  (set_error_message (Some (MSG_CLIENT @ exn_str client_init_error)) w1))
          else (Raised client_init_error, w1))"

text \<open>
  The body of the outer \<^verbatim>\<open>try\<close> (lines 67 to 139). Calling
  \<^verbatim>\<open>getvalue\<close> on a missing file would raise.
\<close>

definition try_body :: "inputs \<Rightarrow> env \<Rightarrow> world \<Rightarrow> completion \<times> world" where
  "try_body inp en w =
     (case uploaded_file inp of
        None \<Rightarrow> (Raised (mk_exn AttributeError (MSG_NONE_ATTR @ ascii ''getvalue'' @ [39])), w)
      | Some (Inl e) \<Rightarrow> (Raised e, w)
      | Some (Inr tex_content) \<Rightarrow>
          if strip tex_content = [] then (Normal, set_error_message (Some MSG_EMPTY) w)
          else (case client_block inp en w of
                  (Normal, w1) \<Rightarrow> generate_block inp en (build_prompt tex_content) w1
                | r \<Rightarrow> r))"

text \<open>
  The three \<^verbatim>\<open>except\<close> clauses of the outer \<^verbatim>\<open>try\<close> (lines 141 to 150), tried in
  order. The class of a clause is looked up when the clause is tried: an exception that is
  no \<^verbatim>\<open>UnicodeDecodeError\<close> makes the second clause evaluate
  \<^verbatim>\<open>genai.types.generation_types.BlockedPromptException\<close>, and when that lookup
  raises, its \<^verbatim>\<open>AttributeError\<close> leaves the \<^verbatim>\<open>try\<close> statement in place of the
  exception being handled. An exception that none of the clauses matches goes on.
\<close>

definition MSG_NO_GENERATION_TYPES :: pystr where
  "MSG_NO_GENERATION_TYPES =
     ascii ''module '' @ [39] @ ascii ''google.genai.types'' @ [39] @
     ascii '' has no attribute '' @ [39] @ ascii ''generation_types'' @ [39]"

definition outer_handlers :: "env \<Rightarrow> exn \<Rightarrow> world \<Rightarrow> completion \<times> world" where
  "outer_handlers en e w =
     (if exn_class e = UnicodeDecodeError
      then (Normal, set_error_message (Some MSG_DECODE) w)
      else if \<not> generation_types en
      then (Raised (mk_exn AttributeError MSG_NO_GENERATION_TYPES), w)
      else if exn_class e = BlockedPromptException
      then (Normal, set_error_message (Some (MSG_BLOCKED @ exn_str e)) w)
      else if is_Exception e
      then (Normal, set_error_message
                      (Some (MSG_UNEXPECTED @ exn_str e @ MSG_DETAILS @ format_exc en e)) w)
      else (Raised e, w))"

text \<open>
  The exception of \<^verbatim>\<open>st.stop()\<close> passes the same clauses: it is no
  \<^verbatim>\<open>UnicodeDecodeError\<close>, so the second clause is tried and its class looked up; when
  the lookup succeeds, neither that clause nor \<^verbatim>\<open>except Exception\<close> matches.
\<close>

definition outer_stop :: "env \<Rightarrow> world \<Rightarrow> completion \<times> world" where
  "outer_stop en w =
     (if \<not> generation_types en
      then (Raised (mk_exn AttributeError MSG_NO_GENERATION_TYPES), w)
      else (Stopped, w))"

text \<open>
  The body of \<^verbatim>\<open>if st.sidebar.button(...)\<close> (lines 62 to 155): both session entries
  are reset first.
\<close>

definition reset_session :: "world \<Rightarrow> world" where
  "reset_session w = set_error_message None (set_mermaid_code None w)"

definition on_button :: "inputs \<Rightarrow> env \<Rightarrow> world \<Rightarrow> completion \<times> world" where
  "on_button inp en w =
     (let w1 = reset_session w in
      if api_key inp \<noteq> [] \<and> uploaded_file inp \<noteq> None then
        (case try_body inp en w1 of
           (Raised e, w2) \<Rightarrow> outer_handlers en e w2
         | (Stopped, w2) \<Rightarrow> outer_stop en w2
         | (Normal, w2) \<Rightarrow> (Normal, w2))
      else if api_key inp = [] then (Normal, emit (StWarning MSG_NO_KEY) w1)
      else if uploaded_file inp = None then (Normal, emit (StWarning MSG_NO_FILE) w1)
      else (Normal, w1))"

section \<open>Display (app.py, lines 157 to 183)\<close>

definition HDR_CODE :: pystr where
  "HDR_CODE =
     ascii ''Generated Mermaid JS Code''"

definition HDR_CHART :: pystr where
  "HDR_CHART =
     ascii ''Rendered Flowchart''"

definition MSG_CAPTION :: pystr where
  "MSG_CAPTION =
     ascii ''Note: The accuracy of the flowchart depends on the AI'' @ [39] @
     ascii ''s interpretation of the LaTeX structure and explicit references'' @
     ascii '' within the text.''"

definition MSG_RENDER :: pystr where
  "MSG_RENDER =
     ascii ''Could not render the Mermaid diagram. The generated code might'' @
     ascii '' be invalid. Error: ''"

definition MSG_CHECK_CODE :: pystr where
  "MSG_CHECK_CODE =
     ascii ''Please check the generated Mermaid code above for syntax errors.''"

definition MSG_INFO_BOTH :: pystr where
  "MSG_INFO_BOTH =
     ascii ''Please provide your Gemini API key and upload a .tex file in'' @
     ascii '' the sidebar, then click '' @ [39] @ ascii ''Generate Flowchart'' @ [39] @
     ascii ''.''"

definition MSG_INFO_ONE :: pystr where
  "MSG_INFO_ONE =
     ascii ''Provide both API Key and .tex file, then click '' @ [39] @
     ascii ''Generate Flowchart'' @ [39] @ ascii ''.''"

text \<open>Lines 158 and 159: the stored error, when there is one.\<close>

definition show_error :: "world \<Rightarrow> world" where
  "show_error w =
     (case error_message (session w) of
        Some msg \<Rightarrow> if msg \<noteq> [] then emit (StError msg) w else w
      | None \<Rightarrow> w)"

text \<open>Lines 162 to 176: the code, then the rendering inside its own \<^verbatim>\<open>try\<close>.\<close>

definition show_result :: "env \<Rightarrow> pystr \<Rightarrow> world \<Rightarrow> completion \<times> world" where
  "show_result en code w =
     (let w1 = emit (StSubheader HDR_CHART) (emit (StCode code) (emit (StSubheader HDR_CODE) w));
          w2 = emit (StMermaid code) w1
      in case st_mermaid en code of
           None \<Rightarrow> (Normal, emit (StCaption MSG_CAPTION) w2)
         | Some render_error \<Rightarrow>
             if is_Exception render_error
             then (Normal, emit (StWarning MSG_CHECK_CODE)
                             (emit (StError (MSG_RENDER @ exn_str render_error)) w2))
             else (Raised render_error, w2))"

text \<open>Lines 178 to 183: the two \<^verbatim>\<open>elif\<close> branches taken when there is no result.\<close>

definition show_hints :: "inputs \<Rightarrow> world \<Rightarrow> world" where
  "show_hints inp w =
     (if \<not> truthy (error_message (session w)) \<and> uploaded_file inp = None \<and> api_key inp = []
      then emit (StInfo MSG_INFO_BOTH) w
      else if \<not> truthy (error_message (session w))
              \<and> (uploaded_file inp = None \<or> api_key inp = [])
      then emit (StInfo MSG_INFO_ONE) w
      else w)"

definition display :: "inputs \<Rightarrow> env \<Rightarrow> world \<Rightarrow> completion \<times> world" where
  "display inp en w =
     (let w1 = show_error w
      in case mermaid_code (session w1) of
           Some code \<Rightarrow>
             if code \<noteq> [] then show_result en code w1 else (Normal, show_hints inp w1)
         | None \<Rightarrow> (Normal, show_hints inp w1))"

section \<open>One run of the script\<close>

text \<open>
  Lines 9 to 52 configure the page and draw the widgets whose values are the inputs; the
  run proper starts at line 55 with the creation of the missing session entries, goes
  through the button branch when the button was pressed, and ends with the display unless
  an exception ended it before.
\<close>

definition script :: "inputs \<Rightarrow> env \<Rightarrow> stored_state \<Rightarrow> completion \<times> world" where
  "script inp en st =
     (let w0 = \<lparr>session = init_session_state st, trace = []\<rparr> in
      case (if button inp then on_button inp en w0 else (Normal, w0)) of
        (Normal, w1) \<Rightarrow> display inp en w1
      | r \<Rightarrow> r)"

text \<open>What is left of a run: the two session entries and the trace.\<close>

definition final_result :: "completion \<times> world \<Rightarrow> pystr option" where
  "final_result r = mermaid_code (session (snd r))"

definition final_error :: "completion \<times> world \<Rightarrow> pystr option" where
  "final_error r = error_message (session (snd r))"

definition final_trace :: "completion \<times> world \<Rightarrow> event list" where
  "final_trace r = trace (snd r)"

section \<open>Facts about strings\<close>

lemma lstrip_blank_iff: "lstrip w = [] \<longleftrightarrow> (\<forall>c\<in>set w. isspace c)"
  by (simp add: lstrip_def)

lemma rstrip_blank_iff: "rstrip w = [] \<longleftrightarrow> (\<forall>c\<in>set w. isspace c)"
  by (simp add: rstrip_def)

lemma lstrip_head: "lstrip s \<noteq> [] \<Longrightarrow> \<not> isspace (hd (lstrip s))"
  unfolding lstrip_def by (rule hd_dropWhile)

lemma rstrip_last: "rstrip s \<noteq> [] \<Longrightarrow> \<not> isspace (last (rstrip s))"
  unfolding rstrip_def by (simp add: last_rev hd_dropWhile)

lemma lstrip_id: "s = [] \<or> \<not> isspace (hd s) \<Longrightarrow> lstrip s = s"
  unfolding lstrip_def by (cases s) auto

lemma rstrip_id: "s = [] \<or> \<not> isspace (last s) \<Longrightarrow> rstrip s = s"
  unfolding rstrip_def by (cases s rule: rev_cases) auto

lemma rstrip_prefix: "\<exists>w. (\<forall>c\<in>set w. isspace c) \<and> s = rstrip s @ w"
proof -
  have "rev s = takeWhile isspace (rev s) @ dropWhile isspace (rev s)" by simp
  then have "s = rev (dropWhile isspace (rev s)) @ rev (takeWhile isspace (rev s))"
    by (metis rev_append rev_rev_ident)
  moreover have "\<forall>c\<in>set (rev (takeWhile isspace (rev s))). isspace c"
    by (auto dest: set_takeWhileD)
  ultimately show ?thesis unfolding rstrip_def by blast
qed

lemma lstrip_suffix: "\<exists>w. (\<forall>c\<in>set w. isspace c) \<and> s = w @ lstrip s"
proof -
  have "s = takeWhile isspace s @ dropWhile isspace s" by simp
  moreover have "\<forall>c\<in>set (takeWhile isspace s). isspace c"
    by (auto dest: set_takeWhileD)
  ultimately show ?thesis unfolding lstrip_def by blast
qed

lemma strip_decomp:
  "\<exists>w0 w3. (\<forall>c\<in>set w0. isspace c) \<and> (\<forall>c\<in>set w3. isspace c) \<and> s = w0 @ strip s @ w3"
proof -
  obtain w0 where w0: "\<forall>c\<in>set w0. isspace c" "s = w0 @ lstrip s"
    using lstrip_suffix by blast
  obtain w3 where w3: "\<forall>c\<in>set w3. isspace c" "lstrip s = rstrip (lstrip s) @ w3"
    using rstrip_prefix by blast
  have "s = w0 @ strip s @ w3" unfolding strip_def using w0(2) w3(2) by simp
  with w0(1) w3(1) show ?thesis by blast
qed

lemma strip_blank_iff: "strip w = [] \<longleftrightarrow> (\<forall>c\<in>set w. isspace c)"
proof
  assume "strip w = []"
  moreover obtain w0 w3 where "\<forall>c\<in>set w0. isspace c" "\<forall>c\<in>set w3. isspace c" "w = w0 @ strip w @ w3"
    using strip_decomp by blast
  ultimately show "\<forall>c\<in>set w. isspace c"
    by (metis Un_iff append_Nil set_append)
next
  assume "\<forall>c\<in>set w. isspace c"
  then have "lstrip w = []" by (simp add: lstrip_blank_iff)
  then show "strip w = []" by (simp add: strip_def rstrip_def)
qed

lemma strip_head: "strip s \<noteq> [] \<Longrightarrow> \<not> isspace (hd (strip s))"
proof -
  assume ne: "strip s \<noteq> []"
  obtain w where w: "lstrip s = rstrip (lstrip s) @ w" using rstrip_prefix by blast
  from ne have "rstrip (lstrip s) \<noteq> []" by (simp add: strip_def)
  then have "hd (lstrip s) = hd (strip s)" "lstrip s \<noteq> []"
    using w by (metis hd_append2 strip_def, metis append_is_Nil_conv)
  then show ?thesis using lstrip_head by metis
qed

lemma strip_last: "strip s \<noteq> [] \<Longrightarrow> \<not> isspace (last (strip s))"
  unfolding strip_def by (rule rstrip_last)

lemma strip_fixed: "s = [] \<or> (\<not> isspace (hd s) \<and> \<not> isspace (last s)) \<Longrightarrow> strip s = s"
  unfolding strip_def by (metis lstrip_id rstrip_id)

lemma strip_strip: "strip (strip s) = strip s"
  by (rule strip_fixed) (metis strip_head strip_last)

lemma strip_fixed_iff:
  "strip s = s \<longleftrightarrow> s = [] \<or> (\<not> isspace (hd s) \<and> \<not> isspace (last s))"
  by (metis strip_fixed strip_head strip_last)


lemma startswith_append: "startswith (p @ rest) p"
  by (simp add: startswith_def)

lemma startswith_decomp: "startswith s p \<Longrightarrow> \<exists>rest. s = p @ rest"
  unfolding startswith_def by (metis append_take_drop_id)

lemma startswith_iff: "startswith s p \<longleftrightarrow> (\<exists>rest. s = p @ rest)"
  using startswith_append startswith_decomp by blast

lemma endswith_iff: "endswith s p \<longleftrightarrow> (\<exists>body. s = body @ p)"
proof
  assume "endswith s p"
  then obtain r where "rev s = rev p @ r" unfolding endswith_def startswith_iff by blast
  then have "s = rev r @ p" by (metis rev_append rev_rev_ident)
  then show "\<exists>body. s = body @ p" by blast
next
  assume "\<exists>body. s = body @ p"
  then show "endswith s p" unfolding endswith_def startswith_iff by auto
qed

lemma startswith_head: "startswith (c # cs) sep \<Longrightarrow> sep \<noteq> [] \<Longrightarrow> hd sep = c"
  unfolding startswith_iff by (cases sep) auto

lemma partition_sep_here:
  "sep \<noteq> [] \<Longrightarrow> partition_sep (sep @ rest) sep = Some ([], rest)"
  by (cases sep) (simp_all add: startswith_def)

lemma partition_sep_blank:
  "\<forall>c\<in>set w. isspace c \<Longrightarrow> sep \<noteq> [] \<Longrightarrow> \<not> isspace (hd sep) \<Longrightarrow>
   partition_sep (w @ sep @ rest) sep = Some (w, rest)"
proof (induction w)
  case Nil
  then show ?case by (simp add: partition_sep_here)
next
  case (Cons c w)
  have "\<not> startswith (c # w @ sep @ rest) sep"
    using Cons.prems startswith_head by fastforce
  then show ?case using Cons by simp
qed

lemma partition_sep_sound:
  "partition_sep s sep = Some (a, b) \<Longrightarrow> s = a @ sep @ b"
proof (induction s arbitrary: a)
  case Nil
  then show ?case by (simp split: if_splits)
next
  case (Cons c cs)
  show ?case
  proof (cases "startswith (c # cs) sep")
    case True
    then obtain rest where rest: "c # cs = sep @ rest" using startswith_decomp by blast
    have "a = [] \<and> b = drop (length sep) (c # cs)" using Cons.prems True by simp
    then show ?thesis using rest by simp
  next
    case False
    then show ?thesis using Cons by (auto split: option.splits)
  qed
qed

lemma strip_startswith_decomp:
  assumes "startswith (strip g) sep"
  shows "\<exists>w rest. (\<forall>c\<in>set w. isspace c) \<and> g = w @ sep @ rest"
proof -
  obtain w0 w3 where w: "\<forall>c\<in>set w0. isspace c" "g = w0 @ strip g @ w3"
    using strip_decomp by blast
  obtain r where "strip g = sep @ r" using assms startswith_decomp by blast
  with w(2) have "g = w0 @ sep @ (r @ w3)" by simp
  with w(1) show ?thesis by blast
qed

lemma strip_endswith_decomp:
  assumes "endswith (strip g) sep"
  shows "\<exists>body w. (\<forall>c\<in>set w. isspace c) \<and> g = body @ sep @ w"
proof -
  obtain w0 w3 where w: "\<forall>c\<in>set w3. isspace c" "g = w0 @ strip g @ w3"
    using strip_decomp by blast
  obtain b where "strip g = b @ sep" using assms endswith_iff by blast
  with w(2) have "g = (w0 @ b) @ sep @ w3" by simp
  with w(1) show ?thesis by blast
qed

text \<open>What one guarded removal at the front returns.\<close>

lemma drop_leading_hit:
  assumes "startswith (strip g) sep" "sep \<noteq> []" "\<not> isspace (hd sep)"
  shows "\<exists>w rest. (\<forall>c\<in>set w. isspace c) \<and> g = w @ sep @ rest \<and> drop_leading sep g = Inr rest"
proof -
  obtain w rest where w: "\<forall>c\<in>set w. isspace c" "g = w @ sep @ rest"
    using strip_startswith_decomp [OF assms(1)] by blast
  have "partition_sep g sep = Some (w, rest)"
    using partition_sep_blank [OF w(1) assms(2,3)] w(2) by simp
  then have "drop_leading sep g = Inr rest"
    using assms(1,2) by (simp add: drop_leading_def split1_def ebind_def item_def)
  with w show ?thesis by blast
qed

lemma drop_leading_miss: "\<not> startswith (strip g) sep \<Longrightarrow> drop_leading sep g = Inr g"
  by (simp add: drop_leading_def)

lemma drop_trailing_hit:
  assumes "endswith (strip g) sep" "sep \<noteq> []" "\<not> isspace (last sep)"
  shows "\<exists>body w. (\<forall>c\<in>set w. isspace c) \<and> g = body @ sep @ w \<and> drop_trailing sep g = Inr body"
proof -
  obtain body w where w: "\<forall>c\<in>set w. isspace c" "g = body @ sep @ w"
    using strip_endswith_decomp [OF assms(1)] by blast
  have "rev g = rev w @ rev sep @ rev body" using w(2) by simp
  moreover have "\<forall>c\<in>set (rev w). isspace c" using w(1) by simp
  moreover have "rev sep \<noteq> []" "\<not> isspace (hd (rev sep))"
    using assms(2,3) by (simp_all add: hd_rev)
  ultimately have "partition_sep (rev g) (rev sep) = Some (rev w, rev body)"
    using partition_sep_blank by metis
  then have "drop_trailing sep g = Inr body"
    using assms(1,2) by (simp add: drop_trailing_def rsplit1_def ebind_def item_def)
  with w show ?thesis by blast
qed

lemma drop_trailing_miss: "\<not> endswith (strip g) sep \<Longrightarrow> drop_trailing sep g = Inr g"
  by (simp add: drop_trailing_def)

section \<open>Facts about the cleaning\<close>

lemma FENCE_facts: "FENCE \<noteq> []" "\<not> isspace (hd FENCE)" "\<not> isspace (last FENCE)"
  by (simp_all add: FENCE_def ascii_def isspace_def)

lemma FENCE_MERMAID_facts: "FENCE_MERMAID \<noteq> []" "\<not> isspace (hd FENCE_MERMAID)"
  by (simp_all add: FENCE_MERMAID_def ascii_def isspace_def)

lemma FENCE_MERMAID_split: "FENCE_MERMAID = FENCE @ ascii ''mermaid''"
  by (simp add: FENCE_MERMAID_def FENCE_def ascii_def)

lemma startswith_FENCE_MERMAID: "startswith s FENCE_MERMAID \<Longrightarrow> startswith s FENCE"
  unfolding startswith_iff FENCE_MERMAID_split by auto

lemma clean_chain:
  assumes "drop_leading FENCE_MERMAID t = Inr g1" "drop_leading FENCE g1 = Inr g2"
    "drop_trailing FENCE g2 = Inr g3"
  shows "clean_generated_text t = Inr (strip g3)"
  using assms by (simp add: clean_generated_text_def ebind_def)

lemma clean_shape:
  "\<exists>w0 l1 w1 l2 m r w3.
     t = w0 @ l1 @ w1 @ l2 @ m @ r @ w3
     \<and> (\<forall>c\<in>set w0. isspace c) \<and> (\<forall>c\<in>set w1. isspace c) \<and> (\<forall>c\<in>set w3. isspace c)
     \<and> (l1 = [] \<or> l1 = FENCE_MERMAID) \<and> (l2 = [] \<or> l2 = FENCE) \<and> (r = [] \<or> r = FENCE)
     \<and> clean_generated_text t = Inr (strip m)"
proof -
  obtain w0 l1 g1 where s1: "t = w0 @ l1 @ g1" "\<forall>c\<in>set w0. isspace c"
      "l1 = [] \<or> l1 = FENCE_MERMAID" "drop_leading FENCE_MERMAID t = Inr g1"
  proof (cases "startswith (strip t) FENCE_MERMAID")
    case True
    then obtain w rest where "\<forall>c\<in>set w. isspace c" "t = w @ FENCE_MERMAID @ rest"
        "drop_leading FENCE_MERMAID t = Inr rest"
      using drop_leading_hit [OF _ FENCE_MERMAID_facts] by blast
    then show ?thesis using that [of w FENCE_MERMAID rest] by simp
  next
    case False
    then show ?thesis using that [of "[]" "[]" t] by (simp add: drop_leading_miss)
  qed
  obtain w1 l2 g2 where s2: "g1 = w1 @ l2 @ g2" "\<forall>c\<in>set w1. isspace c"
      "l2 = [] \<or> l2 = FENCE" "drop_leading FENCE g1 = Inr g2"
  proof (cases "startswith (strip g1) FENCE")
    case True
    then obtain w rest where "\<forall>c\<in>set w. isspace c" "g1 = w @ FENCE @ rest"
        "drop_leading FENCE g1 = Inr rest"
      using drop_leading_hit [OF _ FENCE_facts(1,2)] by blast
    then show ?thesis using that [of w FENCE rest] by simp
  next
    case False
    then show ?thesis using that [of "[]" "[]" g1] by (simp add: drop_leading_miss)
  qed
  obtain m r w3 where s3: "g2 = m @ r @ w3" "\<forall>c\<in>set w3. isspace c"
      "r = [] \<or> r = FENCE" "drop_trailing FENCE g2 = Inr m"
  proof (cases "endswith (strip g2) FENCE")
    case True
    then obtain body w where "\<forall>c\<in>set w. isspace c" "g2 = body @ FENCE @ w"
        "drop_trailing FENCE g2 = Inr body"
      using drop_trailing_hit [OF _ FENCE_facts(1,3)] by blast
    then show ?thesis using that [of body FENCE w] by simp
  next
    case False
    then show ?thesis using that [of g2 "[]" "[]"] by (simp add: drop_trailing_miss)
  qed
  have "t = w0 @ l1 @ w1 @ l2 @ m @ r @ w3" using s1(1) s2(1) s3(1) by simp
  moreover have "clean_generated_text t = Inr (strip m)"
    using clean_chain [OF s1(4) s2(4) s3(4)] .
  ultimately show ?thesis using s1(2,3) s2(2,3) s3(2,3) by blast
qed

lemma clean_total: "\<exists>r. clean_generated_text t = Inr r"
  using clean_shape [of t] by blast

lemma clean_plain:
  assumes "\<not> startswith (strip t) FENCE" "\<not> endswith (strip t) FENCE"
  shows "clean_generated_text t = Inr (strip t)"
proof -
  have "\<not> startswith (strip t) FENCE_MERMAID" using assms(1) startswith_FENCE_MERMAID by blast
  then have "drop_leading FENCE_MERMAID t = Inr t" by (rule drop_leading_miss)
  moreover have "drop_leading FENCE t = Inr t" using assms(1) by (rule drop_leading_miss)
  moreover have "drop_trailing FENCE t = Inr t" using assms(2) by (rule drop_trailing_miss)
  ultimately show ?thesis by (rule clean_chain)
qed

lemma clean_stripped: "clean_generated_text t = Inr r \<Longrightarrow> strip r = r"
  using clean_shape [of t] strip_strip by auto







lemmas str_eval = strip_def lstrip_def rstrip_def startswith_def endswith_def isspace_def ascii_def
  FENCE_def FENCE_MERMAID_def

lemmas step_eval = drop_leading_def drop_trailing_def ebind_def split1_def rsplit1_def item_def

lemma middle_part:
  "s = l @ m @ r \<Longrightarrow> m = take (length s - length l - length r) (drop (length l) s)"
  by simp


section \<open>Facts about a run of the script\<close>

lemmas final_defs = final_result_def final_error_def final_trace_def

lemma emit_simps: "session (emit ev w) = session w" "trace (emit ev w) = trace w @ [ev]"
  by (simp_all add: emit_def)

lemma set_mermaid_code_simps:
  "mermaid_code (session (set_mermaid_code v w)) = v"
  "error_message (session (set_mermaid_code v w)) = error_message (session w)"
  "trace (set_mermaid_code v w) = trace w"
  by (simp_all add: set_mermaid_code_def)

lemma set_error_message_simps:
  "error_message (session (set_error_message v w)) = v"
  "mermaid_code (session (set_error_message v w)) = mermaid_code (session w)"
  "trace (set_error_message v w) = trace w"
  by (simp_all add: set_error_message_def)

lemma reset_session_simps:
  "mermaid_code (session (reset_session w)) = None"
  "error_message (session (reset_session w)) = None"
  "trace (reset_session w) = trace w"
  by (simp_all add: reset_session_def set_error_message_simps set_mermaid_code_simps)

lemmas world_simps = emit_simps set_mermaid_code_simps set_error_message_simps reset_session_simps

lemma reset_session_eq:
  "reset_session w = \<lparr>session = \<lparr>mermaid_code = None, error_message = None\<rparr>, trace = trace w\<rparr>"
  by (simp add: reset_session_def set_error_message_def set_mermaid_code_def)

lemma reset_session_idem: "reset_session (reset_session w) = reset_session w"
  by (simp add: reset_session_eq)

lemma on_button_reset: "on_button inp en (reset_session w) = on_button inp en w"
  by (simp add: on_button_def reset_session_idem)

lemma on_button_cong: "trace w = trace w' \<Longrightarrow> on_button inp en w = on_button inp en w'"
  using on_button_reset [of inp en w] on_button_reset [of inp en w'] by (simp add: reset_session_eq)

lemma script_button_indep: "button inp \<Longrightarrow> script inp en st = script inp en st'"
proof -
  assume b: "button inp"
  have "on_button inp en \<lparr>session = init_session_state st, trace = []\<rparr>
      = on_button inp en \<lparr>session = init_session_state st', trace = []\<rparr>"
    by (rule on_button_cong) simp
  then show ?thesis using b by (simp add: script_def)
qed

lemma is_Exception_mk_exn: "c \<noteq> NonException \<Longrightarrow> is_Exception (mk_exn c txt)"
  by (simp add: is_Exception_def mk_exn_def)

text \<open>Messages are never empty.\<close>

lemma api_error_message_nonempty: "api_error_message model detail tb \<noteq> []"
  by (simp add: api_error_message_def ascii_def)

lemma MSG_EMPTY_nonempty: "MSG_EMPTY \<noteq> []"
  by (simp add: MSG_EMPTY_def ascii_def)


lemma MSG_CLIENT_nonempty: "MSG_CLIENT @ x \<noteq> []"
  by (simp add: MSG_CLIENT_def ascii_def)

text \<open>The display step leaves the session as it is.\<close>

lemma show_hints_session: "session (show_hints inp w) = session w"
  by (simp add: show_hints_def emit_simps)

lemma show_result_session: "session (snd (show_result en code w)) = session w"
  by (simp add: show_result_def emit_simps Let_def split: option.splits)

lemma show_error_session: "session (show_error w) = session w"
  by (simp add: show_error_def emit_simps split: option.splits)

lemma display_session: "session (snd (display inp en w)) = session w"
  by (simp add: display_def Let_def show_hints_session show_result_session show_error_session
      split: option.splits)

lemma display_no_code:
  "mermaid_code (session w) = None \<or> mermaid_code (session w) = Some [] \<Longrightarrow>
   display inp en w = (Normal, show_hints inp (show_error w))"
  by (auto simp add: display_def Let_def show_error_session)

lemma display_error_only:
  assumes "error_message (session w) = Some msg" "msg \<noteq> []" "mermaid_code (session w) = None"
  shows "display inp en w = (Normal, emit (StError msg) w)"
  using assms by (simp add: display_no_code show_error_def show_hints_def truthy_def emit_simps)

text \<open>A run in which the button was pressed with a key and a file.\<close>

lemma script_attempt:
  assumes "button inp" "api_key inp \<noteq> []" "uploaded_file inp \<noteq> None"
  shows "script inp en st =
     (case (case try_body inp en (reset_session \<lparr>session = init_session_state st, trace = []\<rparr>) of
              (Raised e, w2) \<Rightarrow> outer_handlers en e w2
            | (Stopped, w2) \<Rightarrow> outer_stop en w2
            | (Normal, w2) \<Rightarrow> (Normal, w2)) of
        (Normal, w1) \<Rightarrow> display inp en w1
      | r \<Rightarrow> r)"
  using assms by (simp add: script_def on_button_def)

lemma start_world:
  "reset_session \<lparr>session = init_session_state st, trace = []\<rparr>
     = \<lparr>session = \<lparr>mermaid_code = None, error_message = None\<rparr>, trace = []\<rparr>"
  by (simp add: reset_session_eq)

lemma run_empty_document:
  assumes "button inp" "api_key inp \<noteq> []" "uploaded_file inp = Some (Inr tex_content)"
    "strip tex_content = []"
  shows "script inp en st =
     (Normal, \<lparr>session = \<lparr>mermaid_code = None, error_message = Some MSG_EMPTY\<rparr>,
               trace = [StError MSG_EMPTY]\<rparr>)"
proof -
  have "script inp en st = display inp en
      \<lparr>session = \<lparr>mermaid_code = None, error_message = Some MSG_EMPTY\<rparr>, trace = []\<rparr>"
    using assms by (simp add: script_attempt start_world try_body_def set_error_message_def)
  also have "\<dots> = (Normal, emit (StError MSG_EMPTY)
      \<lparr>session = \<lparr>mermaid_code = None, error_message = Some MSG_EMPTY\<rparr>, trace = []\<rparr>)"
    by (rule display_error_only) (simp_all add: MSG_EMPTY_nonempty)
  finally show ?thesis by (simp add: emit_def)
qed



lemma run_call_failure:
  assumes "button inp" "api_key inp \<noteq> []" "uploaded_file inp = Some (Inr tex_content)"
    "strip tex_content \<noteq> []" "Client en (api_key inp) = None"
    "generate_content en (model_name inp) (build_prompt tex_content) = Inl e" "is_Exception e"
  shows "script inp en st =
     (Normal,
      \<lparr>session = \<lparr>mermaid_code = None,
                   error_message = Some (api_error_message (model_name inp)
                     (case message e of Some m \<Rightarrow> m | None \<Rightarrow> exn_str e) (format_exc en e))\<rparr>,
       trace = [ClientInit (api_key inp),
                GenerateContent (model_name inp) (build_prompt tex_content),
                StError (api_error_message (model_name inp)
                     (case message e of Some m \<Rightarrow> m | None \<Rightarrow> exn_str e) (format_exc en e))]\<rparr>)"
    (is "_ = (Normal, \<lparr>session = \<lparr>mermaid_code = None, error_message = Some ?msg\<rparr>, trace = _\<rparr>)")
proof -
  let ?tr = "[ClientInit (api_key inp), GenerateContent (model_name inp) (build_prompt tex_content)]"
  have "script inp en st = display inp en
      \<lparr>session = \<lparr>mermaid_code = None, error_message = Some ?msg\<rparr>, trace = ?tr\<rparr>"
    using assms
    by (simp add: script_attempt start_world try_body_def client_block_def generate_block_def
        call_gemini_def api_error_handler_def set_error_message_def emit_def)
  also have "\<dots> = (Normal, emit (StError ?msg)
      \<lparr>session = \<lparr>mermaid_code = None, error_message = Some ?msg\<rparr>, trace = ?tr\<rparr>)"
    by (rule display_error_only) (simp_all add: api_error_message_nonempty)
  finally show ?thesis by (simp add: emit_def)
qed

lemma run_text_none:
  assumes "button inp" "api_key inp \<noteq> []" "uploaded_file inp = Some (Inr tex_content)"
    "strip tex_content \<noteq> []" "Client en (api_key inp) = None"
    "generate_content en (model_name inp) (build_prompt tex_content) = Inr None"
  shows "final_error (script inp en st) =
     Some (api_error_message (model_name inp) (MSG_NONE_ATTR @ ascii ''strip'' @ [39])
        (format_exc en (mk_exn AttributeError (MSG_NONE_ATTR @ ascii ''strip'' @ [39]))))"
    (is "_ = Some ?msg")
proof -
  let ?tr = "[ClientInit (api_key inp), GenerateContent (model_name inp) (build_prompt tex_content)]"
  have "script inp en st = display inp en
      \<lparr>session = \<lparr>mermaid_code = None, error_message = Some ?msg\<rparr>, trace = ?tr\<rparr>"
    using assms
    by (simp add: script_attempt start_world try_body_def client_block_def generate_block_def
        call_gemini_def api_error_handler_def set_error_message_def emit_def
        is_Exception_def mk_exn_def)
  then show ?thesis by (simp add: final_error_def display_session)
qed



lemma run_success:
  assumes "button inp" "api_key inp \<noteq> []" "uploaded_file inp = Some (Inr tex_content)"
    "strip tex_content \<noteq> []" "Client en (api_key inp) = None"
    "generate_content en (model_name inp) (build_prompt tex_content) = Inr (Some generated_text)"
    "clean_generated_text generated_text = Inr code" "code \<noteq> []"
    "st_mermaid en code = None"
  shows "script inp en st =
     (Normal,
      \<lparr>session = \<lparr>mermaid_code = Some code, error_message = None\<rparr>,
       trace = [ClientInit (api_key inp),
                GenerateContent (model_name inp) (build_prompt tex_content),
                StSubheader HDR_CODE, StCode code, StSubheader HDR_CHART, StMermaid code,
                StCaption MSG_CAPTION]\<rparr>)"
  using assms
  by (simp add: script_attempt start_world try_body_def client_block_def generate_block_def
      call_gemini_def set_mermaid_code_def emit_def display_def show_error_def show_result_def)

text \<open>The stored result is always a stripped text.\<close>

lemma call_gemini_code:
  assumes "mermaid_code (session w) = None"
    "mermaid_code (session (snd (call_gemini inp en prompt w))) = Some r"
  shows "strip r = r"
proof (cases "generate_content en (model_name inp) prompt")
  case (Inl a)
  then show ?thesis using assms by (simp add: call_gemini_def Let_def emit_simps)
next
  case (Inr response_text)
  show ?thesis
  proof (cases response_text)
    case None
    then show ?thesis using assms Inr by (simp add: call_gemini_def Let_def emit_simps)
  next
    case (Some generated_text)
    obtain r' where r': "clean_generated_text generated_text = Inr r'" using clean_total by blast
    then have "r = r'" using assms Inr Some by (simp add: call_gemini_def Let_def world_simps)
    then show ?thesis using clean_stripped [OF r'] by simp
  qed
qed

lemma generate_block_code:
  assumes "mermaid_code (session w) = None"
    "mermaid_code (session (snd (generate_block inp en prompt w))) = Some r"
  shows "strip r = r"
proof (cases "call_gemini inp en prompt w")
  case (Pair c w1)
  then have w1: "w1 = snd (call_gemini inp en prompt w)" by simp
  have "mermaid_code (session w1) = Some r"
    using assms(2) Pair
    by (cases c) (simp_all add: generate_block_def api_error_handler_def Let_def world_simps
        split: if_splits)
  then show ?thesis using call_gemini_code [OF assms(1)] w1 by simp
qed

lemma client_block_code:
  "mermaid_code (session (snd (client_block inp en w))) = mermaid_code (session w)"
  by (simp add: client_block_def Let_def world_simps split: option.splits)

lemma try_body_code:
  assumes "mermaid_code (session w) = None"
    "mermaid_code (session (snd (try_body inp en w))) = Some r"
  shows "strip r = r"
proof (cases "uploaded_file inp")
  case None
  then show ?thesis using assms by (simp add: try_body_def)
next
  case (Some decoded)
  show ?thesis
  proof (cases decoded)
    case (Inl a)
    then show ?thesis using assms Some by (simp add: try_body_def)
  next
    case (Inr tex_content)
    show ?thesis
    proof (cases "strip tex_content = []")
      case True
      then show ?thesis using assms Some Inr by (simp add: try_body_def world_simps)
    next
      case False
      obtain c w1 where cb: "client_block inp en w = (c, w1)" by (cases "client_block inp en w")
      then have w1: "mermaid_code (session w1) = None"
        using client_block_code [of inp en w] assms(1) by simp
      show ?thesis
      proof (cases c)
        case Normal
        then show ?thesis using assms(2) Some Inr False cb generate_block_code [OF w1]
          by (simp add: try_body_def)
      qed (use assms(2) Some Inr False cb w1 in \<open>simp_all add: try_body_def\<close>)
    qed
  qed
qed

lemma outer_handlers_code:
  "mermaid_code (session (snd (outer_handlers en e w))) = mermaid_code (session w)"
  by (simp add: outer_handlers_def world_simps)

lemma outer_stop_code: "snd (outer_stop en w) = w"
  by (simp add: outer_stop_def)

lemma on_button_code:
  assumes "mermaid_code (session (snd (on_button inp en w))) = Some r"
  shows "strip r = r"
proof (cases "api_key inp \<noteq> [] \<and> uploaded_file inp \<noteq> None")
  case True
  obtain c w2 where tb: "try_body inp en (reset_session w) = (c, w2)"
    by (cases "try_body inp en (reset_session w)")
  have "mermaid_code (session w2) = Some r"
    using assms True tb by (cases c) (simp_all add: on_button_def Let_def outer_handlers_code outer_stop_code)
  then show ?thesis
    using try_body_code [of "reset_session w" inp en r] tb by (simp add: world_simps)
next
  case False
  then show ?thesis using assms by (auto simp add: on_button_def Let_def world_simps split: if_splits)
qed

lemma script_code:
  assumes "button inp" "mermaid_code (session (snd (script inp en st))) = Some r"
  shows "strip r = r"
proof -
  let ?w0 = "\<lparr>session = init_session_state st, trace = []\<rparr>"
  obtain c w1 where ob: "on_button inp en ?w0 = (c, w1)" by (cases "on_button inp en ?w0")
  have "mermaid_code (session w1) = Some r"
    using assms ob by (cases c) (simp_all add: script_def display_session)
  then show ?thesis using on_button_code [of inp en ?w0 r] ob by simp
qed

lemma show_error_trace_code:
  "trace (show_error (set_mermaid_code v w)) = trace (show_error w)"
  "error_message (session (show_error (set_mermaid_code v w))) = error_message (session w)"
  by (simp_all add: show_error_def set_mermaid_code_def emit_def split: option.splits)

lemma show_hints_trace:
  "trace w = trace w' \<Longrightarrow> error_message (session w) = error_message (session w') \<Longrightarrow>
   trace (show_hints inp w) = trace (show_hints inp w')"
  by (simp add: show_hints_def emit_def)

lemma display_empty_code:
  "fst (display inp en (set_mermaid_code (Some []) w)) = fst (display inp en (set_mermaid_code None w))"
  "trace (snd (display inp en (set_mermaid_code (Some []) w)))
     = trace (snd (display inp en (set_mermaid_code None w)))"
proof -
  have a: "display inp en (set_mermaid_code (Some []) w)
      = (Normal, show_hints inp (show_error (set_mermaid_code (Some []) w)))"
    by (rule display_no_code) (simp add: set_mermaid_code_simps)
  have b: "display inp en (set_mermaid_code None w)
      = (Normal, show_hints inp (show_error (set_mermaid_code None w)))"
    by (rule display_no_code) (simp add: set_mermaid_code_simps)
  show "fst (display inp en (set_mermaid_code (Some []) w))
      = fst (display inp en (set_mermaid_code None w))"
    by (simp add: a b)
  show "trace (snd (display inp en (set_mermaid_code (Some []) w)))
     = trace (snd (display inp en (set_mermaid_code None w)))"
    unfolding a b snd_conv
    by (rule show_hints_trace) (simp_all add: show_error_trace_code)
qed

lemma blank_document_no_call:
  assumes "uploaded_file inp = Some (Inr tex_content)" "strip tex_content = []"
  shows "ClientInit k \<notin> set (trace (snd (script inp en st)))"
    "GenerateContent m p \<notin> set (trace (snd (script inp en st)))"
proof -
  have tb: "try_body inp en w = (Normal, set_error_message (Some MSG_EMPTY) w)" for w
    using assms by (simp add: try_body_def)
  have ob: "fst (on_button inp en w) = Normal
      \<and> mermaid_code (session (snd (on_button inp en w))) = None
      \<and> (\<exists>evs. trace (snd (on_button inp en w)) = trace w @ evs
            \<and> (\<forall>ev\<in>set evs. \<exists>msg. ev = StWarning msg))" for w
    using assms(1) by (auto simp add: on_button_def Let_def tb world_simps)
  let ?w0 = "\<lparr>session = init_session_state st, trace = []\<rparr>"
  have dn: "ClientInit k \<notin> set (trace (snd (display inp en w)))
      \<and> GenerateContent m p \<notin> set (trace (snd (display inp en w)))"
    if "ClientInit k \<notin> set (trace w)" "GenerateContent m p \<notin> set (trace w)" for w
    using that
    by (auto simp add: display_def show_error_def show_hints_def show_result_def Let_def emit_def
        split: option.splits)
  show "ClientInit k \<notin> set (trace (snd (script inp en st)))"
  proof (cases "button inp")
    case True
    obtain c w1 where w1: "on_button inp en ?w0 = (c, w1)" by (cases "on_button inp en ?w0")
    then have "c = Normal" "ClientInit k \<notin> set (trace w1)" using ob [of ?w0] by auto
    then show ?thesis using True w1 dn [of w1] ob [of ?w0] by (auto simp add: script_def)
  next
    case False
    then show ?thesis using dn [of ?w0] by (simp add: script_def)
  qed
  show "GenerateContent m p \<notin> set (trace (snd (script inp en st)))"
  proof (cases "button inp")
    case True
    obtain c w1 where w1: "on_button inp en ?w0 = (c, w1)" by (cases "on_button inp en ?w0")
    then have "c = Normal" "GenerateContent m p \<notin> set (trace w1)" using ob [of ?w0] by auto
    then show ?thesis using True w1 dn [of w1] ob [of ?w0] by (auto simp add: script_def)
  next
    case False
    then show ?thesis using dn [of ?w0] by (simp add: script_def)
  qed
qed

section \<open>The claims\<close>




text \<open>
  C2. What cleaning removes. Every response splits into blank text, an optional
  language-qualified marker, blank text, an optional bare marker, an interior, an optional
  bare marker and blank text, and the result is the interior with its outer whitespace
  trimmed. So at most one marker is removed at the back, but up to two at the front: the
  language-qualified one and then a bare one, since the two tests at the front are made one
  after the other; in the example after the theorem no removal of a single marker at the
  front gives the result.
\<close>

theorem clean_generated_text_removals:
  "\<exists>w0 l1 w1 l2 m r w3.
     t = w0 @ l1 @ w1 @ l2 @ m @ r @ w3
     \<and> strip w0 = [] \<and> strip w1 = [] \<and> strip w3 = []
     \<and> (l1 = [] \<or> l1 = FENCE_MERMAID) \<and> (l2 = [] \<or> l2 = FENCE) \<and> (r = [] \<or> r = FENCE)
     \<and> clean_generated_text t = Inr (strip m)"
  using clean_shape [of t] unfolding strip_blank_iff by blast

theorem clean_generated_text_removals_witness:
  "\<exists>w0 l1 w1 l2 m r w3.
     ascii '' ```mermaid ```A-->B``` '' = w0 @ l1 @ w1 @ l2 @ m @ r @ w3
     \<and> strip w0 = [] \<and> strip w1 = [] \<and> strip w3 = []
     \<and> (l1 = [] \<or> l1 = FENCE_MERMAID) \<and> (l2 = [] \<or> l2 = FENCE) \<and> (r = [] \<or> r = FENCE)
     \<and> clean_generated_text (ascii '' ```mermaid ```A-->B``` '') = Inr (strip m)"
  using clean_generated_text_removals [of "ascii '' ```mermaid ```A-->B``` ''"] .

theorem two_leading_markers_removed:
  "clean_generated_text
     (ascii ''```mermaid'' @ [10] @ ascii ''```'' @ [10] @ ascii ''graph TD;'' @ [10] @ ascii ''```'')
   = Inr (ascii ''graph TD;'')
   \<and> \<not> (\<exists>l m r.
        strip (ascii ''```mermaid'' @ [10] @ ascii ''```'' @ [10] @ ascii ''graph TD;'' @ [10] @ ascii ''```'')
          = l @ m @ r
        \<and> (l = [] \<or> l = FENCE \<or> l = FENCE_MERMAID) \<and> (r = [] \<or> r = FENCE)
        \<and> strip m = ascii ''graph TD;'')"
proof -
  let ?t = "ascii ''```mermaid'' @ [10] @ ascii ''```'' @ [10] @ ascii ''graph TD;'' @ [10] @ ascii ''```''"
  let ?g1 = "[10] @ ascii ''```'' @ [10] @ ascii ''graph TD;'' @ [10] @ ascii ''```''"
  let ?g2 = "[10] @ ascii ''graph TD;'' @ [10] @ ascii ''```''"
  let ?g3 = "[10] @ ascii ''graph TD;'' @ [10]"
  have 1: "drop_leading FENCE_MERMAID ?t = Inr ?g1" by (simp add: str_eval step_eval)
  have 2: "drop_leading FENCE ?g1 = Inr ?g2" by (simp add: str_eval step_eval)
  have 3: "drop_trailing FENCE ?g2 = Inr ?g3" by (simp add: str_eval step_eval)
  have 4: "strip ?g3 = ascii ''graph TD;''" by (simp add: str_eval)
  have a: "clean_generated_text ?t = Inr (ascii ''graph TD;'')" using clean_chain [OF 1 2 3] 4 by simp
  have s: "strip ?t = ?t" by (simp add: str_eval)
  have b: False if d: "?t = l @ m @ r" and l: "l = [] \<or> l = FENCE \<or> l = FENCE_MERMAID"
      and r: "r = [] \<or> r = FENCE" and m: "strip m = ascii ''graph TD;''" for l m r
  proof -
    have mid: "m = take (length ?t - length l - length r) (drop (length l) ?t)"
      using d by (rule middle_part)
    consider "l = []" "r = []" | "l = []" "r = FENCE" | "l = FENCE" "r = []" | "l = FENCE" "r = FENCE"
      | "l = FENCE_MERMAID" "r = []" | "l = FENCE_MERMAID" "r = FENCE"
      using l r by blast
    then show False
    proof cases
      case 1 then show ?thesis using mid m by (simp add: str_eval)
    next
      case 2 then show ?thesis using mid m by (simp add: str_eval)
    next
      case 3 then show ?thesis using mid m by (simp add: str_eval)
    next
      case 4 then show ?thesis using mid m by (simp add: str_eval)
    next
      case 5 then show ?thesis using mid m by (simp add: str_eval)
    next
      case 6 then show ?thesis using mid m by (simp add: str_eval)
    qed
  qed
  show ?thesis using a b unfolding s by blast
qed

text \<open>
  C3. A rejected prompt. The imported package reports a prompt rejected for content safety
  by a response without text, so \<^verbatim>\<open>response.text\<close> is \<^verbatim>\<open>None\<close>. The first
  \<^verbatim>\<open>generated_text.strip()\<close> then raises inside the inner \<^verbatim>\<open>try\<close>, whose handler
  stores the message of a failed call; the stored error does not begin with the words of the
  clause written for blocked prompts in the outer \<^verbatim>\<open>try\<close>.
\<close>

theorem rejected_prompt_reported_as_api_error:
  "final_error
     (script \<lparr>api_key = ascii ''key'', model_name = ascii ''gemini-2.0-flash'',
               uploaded_file = Some (Inr (ascii ''Lemma 1'')), button = True\<rparr>
        \<lparr>Client = (\<lambda>k. None),
          generate_content = (\<lambda>m p. Inr None),
          st_mermaid = (\<lambda>c. None), format_exc = (\<lambda>e. ascii ''trace''),
          generation_types = False\<rparr>
        \<lparr>stored_mermaid_code = None, stored_error_message = None\<rparr>)
   = Some (ascii ''Error calling Gemini API (gemini-2.0-flash): '' @ [39] @ ascii ''NoneType'' @ [39]
           @ ascii '' object has no attribute '' @ [39] @ ascii ''strip'' @ [39, 10, 10]
           @ ascii ''Details:'' @ [10] @ ascii ''trace'')
   \<and> \<not> startswith
        (ascii ''Error calling Gemini API (gemini-2.0-flash): '' @ [39] @ ascii ''NoneType'' @ [39]
           @ ascii '' object has no attribute '' @ [39] @ ascii ''strip'' @ [39, 10, 10]
           @ ascii ''Details:'' @ [10] @ ascii ''trace'')
        MSG_BLOCKED"
proof -
  let ?inp = "\<lparr>api_key = ascii ''key'', model_name = ascii ''gemini-2.0-flash'',
               uploaded_file = Some (Inr (ascii ''Lemma 1'')), button = True\<rparr>"
  let ?en = "\<lparr>Client = (\<lambda>k. None),
          generate_content = (\<lambda>m p. Inr None),
          st_mermaid = (\<lambda>c. None), format_exc = (\<lambda>e. ascii ''trace''),
          generation_types = False\<rparr>"
  have b: "strip (ascii ''Lemma 1'') \<noteq> []" by (simp add: str_eval)
  have k: "api_key ?inp \<noteq> []" by (simp add: ascii_def)
  have "final_error (script ?inp ?en \<lparr>stored_mermaid_code = None, stored_error_message = None\<rparr>)
      = Some (api_error_message (ascii ''gemini-2.0-flash'') (MSG_NONE_ATTR @ ascii ''strip'' @ [39])
          (ascii ''trace''))"
    using run_text_none [of ?inp "ascii ''Lemma 1''" ?en "\<lparr>stored_mermaid_code = None, stored_error_message = None\<rparr>"] b k
    by simp
  moreover have "api_error_message (ascii ''gemini-2.0-flash'')
        (MSG_NONE_ATTR @ ascii ''strip'' @ [39]) (ascii ''trace'')
      = ascii ''Error calling Gemini API (gemini-2.0-flash): '' @ [39] @ ascii ''NoneType'' @ [39]
           @ ascii '' object has no attribute '' @ [39] @ ascii ''strip'' @ [39, 10, 10]
           @ ascii ''Details:'' @ [10] @ ascii ''trace''"
    by (simp add: api_error_message_def MSG_DETAILS_def MSG_NONE_ATTR_def ascii_def)
  moreover have "\<not> startswith
        (ascii ''Error calling Gemini API (gemini-2.0-flash): '' @ [39] @ ascii ''NoneType'' @ [39]
           @ ascii '' object has no attribute '' @ [39] @ ascii ''strip'' @ [39, 10, 10]
           @ ascii ''Details:'' @ [10] @ ascii ''trace'')
        MSG_BLOCKED"
    by (simp add: startswith_def MSG_BLOCKED_def ascii_def)
  ultimately show ?thesis by simp
qed




text \<open>
  C5. The fenced example: a response opening with the language-qualified marker and closing
  with the bare marker is cleaned to the text between them.
\<close>

theorem clean_fenced_example:
  "clean_generated_text
     (ascii ''```mermaid'' @ [10] @ ascii ''graph TD;'' @ [10] @ ascii ''A-->B'' @ [10] @ ascii ''```'')
   = Inr (ascii ''graph TD;'' @ [10] @ ascii ''A-->B'')"
proof -
  let ?t = "ascii ''```mermaid'' @ [10] @ ascii ''graph TD;'' @ [10] @ ascii ''A-->B'' @ [10] @ ascii ''```''"
  let ?g1 = "[10] @ ascii ''graph TD;'' @ [10] @ ascii ''A-->B'' @ [10] @ ascii ''```''"
  let ?g3 = "[10] @ ascii ''graph TD;'' @ [10] @ ascii ''A-->B'' @ [10]"
  have 1: "drop_leading FENCE_MERMAID ?t = Inr ?g1" by (simp add: str_eval step_eval)
  have 2: "drop_leading FENCE ?g1 = Inr ?g1" by (simp add: str_eval step_eval)
  have 3: "drop_trailing FENCE ?g1 = Inr ?g3" by (simp add: str_eval step_eval)
  have "strip ?g3 = ascii ''graph TD;'' @ [10] @ ascii ''A-->B''" by (simp add: str_eval)
  then show ?thesis using clean_chain [OF 1 2 3] by simp
qed

text \<open>
  C6. An empty document. When the decoded document is empty or all whitespace, an attempt
  (button pressed, key present) stores the message for an empty file and shows it, and no
  run on such a document constructs the client or calls the service.
\<close>

theorem empty_document_no_call:
  assumes "uploaded_file inp = Some (Inr tex_content)" "strip tex_content = []"
  shows "(button inp \<and> api_key inp \<noteq> [] \<longrightarrow>
            fst (script inp en st) = Normal
          \<and> final_error (script inp en st) = Some MSG_EMPTY
          \<and> final_result (script inp en st) = None
          \<and> final_trace (script inp en st) = [StError MSG_EMPTY])
       \<and> (\<forall>k. ClientInit k \<notin> set (final_trace (script inp en st)))
       \<and> (\<forall>m p. GenerateContent m p \<notin> set (final_trace (script inp en st)))"
  using run_empty_document [of inp tex_content en st] blank_document_no_call [OF assms]
    assms by (simp add: final_defs)

theorem empty_document_no_call_witness:
  "final_error
     (script \<lparr>api_key = ascii ''key'', model_name = ascii ''gemini-2.0-flash'',
               uploaded_file = Some (Inr (ascii ''  '' @ [10])), button = True\<rparr>
        \<lparr>Client = (\<lambda>k. None), generate_content = (\<lambda>m p. Inr (Some (ascii ''graph TD;''))),
          st_mermaid = (\<lambda>c. None), format_exc = (\<lambda>e. ascii ''trace''),
          generation_types = False\<rparr>
        \<lparr>stored_mermaid_code = None, stored_error_message = None\<rparr>)
   = Some MSG_EMPTY
   \<and> final_trace
     (script \<lparr>api_key = ascii ''key'', model_name = ascii ''gemini-2.0-flash'',
               uploaded_file = Some (Inr (ascii ''  '' @ [10])), button = True\<rparr>
        \<lparr>Client = (\<lambda>k. None), generate_content = (\<lambda>m p. Inr (Some (ascii ''graph TD;''))),
          st_mermaid = (\<lambda>c. None), format_exc = (\<lambda>e. ascii ''trace''),
          generation_types = False\<rparr>
        \<lparr>stored_mermaid_code = None, stored_error_message = None\<rparr>)
   = [StError MSG_EMPTY]"
proof -
  have b: "strip (ascii ''  '' @ [10]) = []" by (simp add: str_eval)
  show ?thesis
    using empty_document_no_call [of "\<lparr>api_key = ascii ''key'', model_name = ascii ''gemini-2.0-flash'',
               uploaded_file = Some (Inr (ascii ''  '' @ [10])), button = True\<rparr>"
        "ascii ''  '' @ [10]"
        "\<lparr>Client = (\<lambda>k. None), generate_content = (\<lambda>m p. Inr (Some (ascii ''graph TD;''))),
          st_mermaid = (\<lambda>c. None), format_exc = (\<lambda>e. ascii ''trace''),
          generation_types = False\<rparr>"
        "\<lparr>stored_mermaid_code = None, stored_error_message = None\<rparr>"] b
    by (simp add: ascii_def)
qed

text \<open>
  C7. A failed call. When the call to the service raises, the run ends with a non-empty
  session error and no session result, whatever the session held before.
\<close>

theorem call_failure_sets_error:
  assumes "button inp" "api_key inp \<noteq> []" "uploaded_file inp = Some (Inr tex_content)"
    "strip tex_content \<noteq> []" "Client en (api_key inp) = None"
    "generate_content en (model_name inp) (build_prompt tex_content) = Inl e" "is_Exception e"
  shows "(\<exists>msg. final_error (script inp en st) = Some msg \<and> msg \<noteq> [])
       \<and> final_result (script inp en st) = None"
  using run_call_failure [OF assms, of st] api_error_message_nonempty by (simp add: final_defs)

theorem call_failure_sets_error_witness:
  "(\<exists>msg. final_error
     (script \<lparr>api_key = ascii ''key'', model_name = ascii ''gemini-2.0-flash'',
               uploaded_file = Some (Inr (ascii ''Lemma 1'')), button = True\<rparr>
        \<lparr>Client = (\<lambda>k. None),
          generate_content = (\<lambda>m p. Inl (mk_exn OtherException (ascii ''quota exceeded''))),
          st_mermaid = (\<lambda>c. None), format_exc = (\<lambda>e. ascii ''trace''),
          generation_types = False\<rparr>
        \<lparr>stored_mermaid_code = Some (Some (ascii ''graph TD;'')), stored_error_message = Some None\<rparr>)
      = Some msg \<and> msg \<noteq> [])
   \<and> final_result
     (script \<lparr>api_key = ascii ''key'', model_name = ascii ''gemini-2.0-flash'',
               uploaded_file = Some (Inr (ascii ''Lemma 1'')), button = True\<rparr>
        \<lparr>Client = (\<lambda>k. None),
          generate_content = (\<lambda>m p. Inl (mk_exn OtherException (ascii ''quota exceeded''))),
          st_mermaid = (\<lambda>c. None), format_exc = (\<lambda>e. ascii ''trace''),
          generation_types = False\<rparr>
        \<lparr>stored_mermaid_code = Some (Some (ascii ''graph TD;'')), stored_error_message = Some None\<rparr>)
   = None"
proof -
  have b: "strip (ascii ''Lemma 1'') \<noteq> []" by (simp add: str_eval)
  have c: "is_Exception (mk_exn OtherException (ascii ''quota exceeded''))"
    by (simp add: is_Exception_mk_exn)
  show ?thesis
    by (rule call_failure_sets_error [where tex_content = "ascii ''Lemma 1''"
          and e = "mk_exn OtherException (ascii ''quota exceeded'')"])
      (simp_all add: b c, simp add: ascii_def)
qed

text \<open>
  C8. The start of an attempt. The body of the button branch first resets both session
  entries to \<^verbatim>\<open>None\<close>, runs on the reset state, and so a run in which the button was
  pressed does not depend on what the session held before.
\<close>

theorem attempt_starts_cleared:
  "session (reset_session w) = \<lparr>mermaid_code = None, error_message = None\<rparr>
   \<and> on_button inp en w = on_button inp en (reset_session w)
   \<and> (button inp \<longrightarrow> script inp en st = script inp en st')"
  using script_button_indep [of inp en st st'] on_button_reset [of inp en w]
  by (simp add: reset_session_eq)

theorem attempt_starts_cleared_witness:
  "script \<lparr>api_key = ascii ''key'', model_name = ascii ''gemini-2.0-flash'',
            uploaded_file = Some (Inr (ascii ''Lemma 1'')), button = True\<rparr>
     \<lparr>Client = (\<lambda>k. None), generate_content = (\<lambda>m p. Inr (Some (ascii ''graph TD;''))),
       st_mermaid = (\<lambda>c. None), format_exc = (\<lambda>e. ascii ''trace''),
          generation_types = False\<rparr>
     \<lparr>stored_mermaid_code = Some (Some (ascii ''graph LR;'')),
       stored_error_message = Some (Some (ascii ''old error''))\<rparr>
   = script \<lparr>api_key = ascii ''key'', model_name = ascii ''gemini-2.0-flash'',
            uploaded_file = Some (Inr (ascii ''Lemma 1'')), button = True\<rparr>
     \<lparr>Client = (\<lambda>k. None), generate_content = (\<lambda>m p. Inr (Some (ascii ''graph TD;''))),
       st_mermaid = (\<lambda>c. None), format_exc = (\<lambda>e. ascii ''trace''),
          generation_types = False\<rparr>
     \<lparr>stored_mermaid_code = None, stored_error_message = None\<rparr>"
  using attempt_starts_cleared [of "\<lparr>session = \<lparr>mermaid_code = None, error_message = None\<rparr>, trace = []\<rparr>"
      "\<lparr>api_key = ascii ''key'', model_name = ascii ''gemini-2.0-flash'',
            uploaded_file = Some (Inr (ascii ''Lemma 1'')), button = True\<rparr>"]
  by simp

text \<open>
  C9. No fences. The unfenced example is returned as it is, and any response whose trimmed
  text neither starts nor ends with the bare marker is only trimmed.
\<close>

theorem clean_unfenced:
  "clean_generated_text (ascii ''graph TD;'' @ [10] @ ascii ''A-->B'')
     = Inr (ascii ''graph TD;'' @ [10] @ ascii ''A-->B'')
   \<and> (\<not> startswith (strip t) FENCE \<and> \<not> endswith (strip t) FENCE
        \<longrightarrow> clean_generated_text t = Inr (strip t))"
proof -
  let ?s = "ascii ''graph TD;'' @ [10] @ ascii ''A-->B''"
  have "\<not> startswith (strip ?s) FENCE" "\<not> endswith (strip ?s) FENCE" "strip ?s = ?s"
    by (simp_all add: str_eval)
  then have "clean_generated_text ?s = Inr ?s" using clean_plain [of ?s] by simp
  then show ?thesis using clean_plain [of t] by blast
qed

theorem clean_unfenced_witness:
  "clean_generated_text ([10] @ ascii ''  graph LR;'' @ [10] @ ascii ''X-->Y '' @ [10])
     = Inr (ascii ''graph LR;'' @ [10] @ ascii ''X-->Y'')"
proof -
  let ?t = "[10] @ ascii ''  graph LR;'' @ [10] @ ascii ''X-->Y '' @ [10]"
  have s: "strip ?t = ascii ''graph LR;'' @ [10] @ ascii ''X-->Y''" by (simp add: str_eval)
  have "\<not> startswith (strip ?t) FENCE \<and> \<not> endswith (strip ?t) FENCE"
    unfolding s by (simp add: str_eval)
  then show ?thesis using clean_unfenced [of ?t] s by simp
qed

text \<open>
  C10. The stored result has no whitespace at its ends. After an attempt, and after any run
  that started from a stored result without whitespace at its ends, a session result that is
  present is empty or neither begins nor ends with a whitespace character, and so equals its
  own trim; and the display step does the same for an empty result as for an absent one.
\<close>

theorem stored_result_stripped:
  "((button inp \<or> (\<forall>r0. stored_mermaid_code st = Some (Some r0)
                       \<longrightarrow> r0 = [] \<or> (\<not> isspace (hd r0) \<and> \<not> isspace (last r0))))
      \<longrightarrow> final_result (script inp en st) = Some r
      \<longrightarrow> (r = [] \<or> (\<not> isspace (hd r) \<and> \<not> isspace (last r))) \<and> strip r = r)
   \<and> fst (display inp en (set_mermaid_code (Some []) w))
       = fst (display inp en (set_mermaid_code None w))
   \<and> trace (snd (display inp en (set_mermaid_code (Some []) w)))
       = trace (snd (display inp en (set_mermaid_code None w)))"
proof -
  have "strip r = r" if "button inp" "final_result (script inp en st) = Some r"
    using script_code [of inp en st r] that by (simp add: final_defs)
  moreover have "strip r = r"
    if "\<not> button inp"
      "\<forall>r0. stored_mermaid_code st = Some (Some r0)
          \<longrightarrow> r0 = [] \<or> (\<not> isspace (hd r0) \<and> \<not> isspace (last r0))"
      "final_result (script inp en st) = Some r"
  proof -
    have "mermaid_code (init_session_state st) = Some r"
      using that(1,3) by (simp add: final_defs script_def display_session)
    then have "stored_mermaid_code st = Some (Some r)"
      by (simp add: init_session_state_def split: option.splits)
    then have "r = [] \<or> (\<not> isspace (hd r) \<and> \<not> isspace (last r))" using that(2) by simp
    then show ?thesis by (simp only: strip_fixed_iff)
  qed
  ultimately have "(button inp \<or> (\<forall>r0. stored_mermaid_code st = Some (Some r0)
                       \<longrightarrow> r0 = [] \<or> (\<not> isspace (hd r0) \<and> \<not> isspace (last r0))))
      \<longrightarrow> final_result (script inp en st) = Some r \<longrightarrow> strip r = r"
    by blast
  then have "(button inp \<or> (\<forall>r0. stored_mermaid_code st = Some (Some r0)
                       \<longrightarrow> r0 = [] \<or> (\<not> isspace (hd r0) \<and> \<not> isspace (last r0))))
      \<longrightarrow> final_result (script inp en st) = Some r
      \<longrightarrow> (r = [] \<or> (\<not> isspace (hd r) \<and> \<not> isspace (last r))) \<and> strip r = r"
    using strip_fixed_iff [of r] by blast
  then show ?thesis using display_empty_code [of inp en w] by blast
qed

theorem stored_result_stripped_witness:
  "final_result
     (script \<lparr>api_key = ascii ''key'', model_name = ascii ''gemini-2.0-flash'',
               uploaded_file = Some (Inr (ascii ''Lemma 1'')), button = True\<rparr>
        \<lparr>Client = (\<lambda>k. None),
          generate_content = (\<lambda>m p. Inr (Some (ascii ''```mermaid'' @ [10] @ ascii ''  graph TD;  '' @ [10] @ ascii ''```'' @ [10]))),
          st_mermaid = (\<lambda>c. None), format_exc = (\<lambda>e. ascii ''trace''),
          generation_types = False\<rparr>
        \<lparr>stored_mermaid_code = None, stored_error_message = None\<rparr>)
   = Some (ascii ''graph TD;'')
   \<and> \<not> isspace (hd (ascii ''graph TD;'')) \<and> \<not> isspace (last (ascii ''graph TD;''))"
proof -
  let ?inp = "\<lparr>api_key = ascii ''key'', model_name = ascii ''gemini-2.0-flash'',
               uploaded_file = Some (Inr (ascii ''Lemma 1'')), button = True\<rparr>"
  let ?en = "\<lparr>Client = (\<lambda>k. None),
          generate_content = (\<lambda>m p. Inr (Some (ascii ''```mermaid'' @ [10] @ ascii ''  graph TD;  '' @ [10] @ ascii ''```'' @ [10]))),
          st_mermaid = (\<lambda>c. None), format_exc = (\<lambda>e. ascii ''trace''),
          generation_types = False\<rparr>"
  let ?st = "\<lparr>stored_mermaid_code = None, stored_error_message = None\<rparr>"
  let ?t = "ascii ''```mermaid'' @ [10] @ ascii ''  graph TD;  '' @ [10] @ ascii ''```'' @ [10]"
  let ?g1 = "[10] @ ascii ''  graph TD;  '' @ [10] @ ascii ''```'' @ [10]"
  let ?g3 = "[10] @ ascii ''  graph TD;  '' @ [10]"
  have 1: "drop_leading FENCE_MERMAID ?t = Inr ?g1" by (simp add: str_eval step_eval)
  have 2: "drop_leading FENCE ?g1 = Inr ?g1" by (simp add: str_eval step_eval)
  have 3: "drop_trailing FENCE ?g1 = Inr ?g3" by (simp add: str_eval step_eval)
  have 4: "strip ?g3 = ascii ''graph TD;''" by (simp add: str_eval)
  have c: "clean_generated_text ?t = Inr (ascii ''graph TD;'')"
    using clean_chain [OF 1 2 3] 4 by simp
  have b: "strip (ascii ''Lemma 1'') \<noteq> []" by (simp add: str_eval)
  have k: "api_key ?inp \<noteq> []" "ascii ''graph TD;'' \<noteq> []" by (simp_all add: ascii_def)
  have r: "final_result (script ?inp ?en ?st) = Some (ascii ''graph TD;'')"
    using run_success [of ?inp "ascii ''Lemma 1''" ?en ?t "ascii ''graph TD;''" ?st] b k c
    by (simp add: final_defs)
  have "button ?inp" by simp
  then have "ascii ''graph TD;'' = []
      \<or> (\<not> isspace (hd (ascii ''graph TD;'')) \<and> \<not> isspace (last (ascii ''graph TD;'')))"
    using stored_result_stripped [where inp = ?inp and en = ?en and st = ?st
        and r = "ascii ''graph TD;''"] r
    by blast
  then show ?thesis using r k(2) by blast
qed

end
